theory Spec2Isabelle
  imports Complex_Main "HOL-Library.Product_Lexorder"
begin

section \<open>The DOM as the module reads it\<close>

text \<open>
  The module never mutates the document; it reads properties of elements and walks
  from an element to its children, its parent, its shadow root, its slot. An element
  is modelled by the values those reads return. \<open>props\<close> holds the scalar
  properties and attributes of one element; \<open>ident\<close> stands for object identity
  (JavaScript \<open>===\<close>, \<open>includes\<close>, \<open>contains\<close>). The environment is a
  browser: \<open>Element\<close> is defined, with \<open>matches\<close> and \<open>getRootNode\<close>.
\<close>

record props =
  ident :: nat
  tagName :: string
  disabled :: bool
  inert :: bool
  tabIndex :: int
  tabindexAttr :: "string option"
  isContentEditable :: bool
  contenteditableAttr :: "string option"
  hrefAttr :: bool
  controlsAttr :: bool
  openAttr :: bool
  inputType :: string
  name :: string
  checked :: bool
  form :: "nat option"
  visibility :: string
  clientRects :: nat
  width :: real
  height :: real

text \<open>
  What the upward walk of \<open>isHidden\<close> reads of a node: its own properties, whether
  \<open>shadowRoot\<close> is set on it, and the node above it: none (\<open>WTop\<close>), the host of
  the shadow root it is a child of (\<open>WHost\<close>), or its parent element together with
  its \<open>assignedSlot\<close> (\<open>WParent\<close>).
\<close>

datatype wnode = WNode (wprops: props) (whasShadowRoot: bool) (wup: wup)
  and wup = WTop | WHost wnode | WParent wnode "wnode option"

text \<open>
  An element with what is below it: \<open>children\<close>, its shadow root (\<open>True\<close> for an
  open one; \<open>element.shadowRoot\<close> is null for a closed one), the result of
  \<open>assignedElements()\<close> for a slot, and \<open>assignedSlot\<close>.
\<close>

datatype element = Element
  (props: props)
  (children: "element list")
  (shadow: "(bool \<times> element list) option")
  (assignedElements: "element list")
  (assignedSlot: "wnode option")

text \<open>
  Where an element sits: at the top of its tree (\<open>Top True\<close> when that tree is the
  document, \<open>Top False\<close> when it is detached), as a child of an element, or as a
  child of the shadow root of a host. A node is an element with its position.
\<close>

datatype chain = Top bool | Child element chain | ShadowChild element chain

type_synonym node = "element \<times> chain"

abbreviation tag :: "element \<Rightarrow> string" where
  "tag e \<equiv> tagName (props e)"

abbreviation ident_of :: "node \<Rightarrow> nat" where
  "ident_of n \<equiv> ident (props (fst n))"

definition shadowRoot :: "element \<Rightarrow> element list option" where
  "shadowRoot e = (case shadow e of Some (True, kids) \<Rightarrow> Some kids | _ \<Rightarrow> None)"

definition parentElement :: "node \<Rightarrow> node option" where
  "parentElement n = (case snd n of Child p c \<Rightarrow> Some (p, c) | _ \<Rightarrow> None)"

definition childNodes :: "node \<Rightarrow> node list" where
  "childNodes n = map (\<lambda>k. (k, Child (fst n) (snd n))) (children (fst n))"

definition shadowChildNodes :: "node \<Rightarrow> element list \<Rightarrow> node list" where
  "shadowChildNodes n kids = map (\<lambda>k. (k, ShadowChild (fst n) (snd n))) kids"

fun subtree :: "element \<Rightarrow> chain \<Rightarrow> node list" where
  "subtree (Element p ks sh asg sl) c =
     (Element p ks sh asg sl, c) #
     concat (map (\<lambda>k. subtree k (Child (Element p ks sh asg sl) c)) ks)"

definition descendants :: "node \<Rightarrow> node list" where
  "descendants n = concat (map (\<lambda>k. subtree k (Child (fst n) (snd n))) (children (fst n)))"

definition contains :: "element \<Rightarrow> node \<Rightarrow> bool" where
  "contains e n = (ident_of n \<in> set (map ident_of (subtree e (Top False))))"

section \<open>Options and environment\<close>

text \<open>
  \<open>options.getShadowRoot\<close> is falsy, \<open>true\<close>, or a function of the element that
  answers with something falsy, with \<open>true\<close> (an undisclosed shadow root) or with
  the element's shadow root, open or closed (\<open>ARoot\<close>; for an element without a
  shadow root there is none to answer with, and the answer counts as falsy).
\<close>

datatype gsr_answer = AFalsy | ATrue | ARoot

datatype gsr_option = GsrFalsy | GsrTrue | GsrFn "props \<Rightarrow> gsr_answer"

fun truthy :: "gsr_option \<Rightarrow> bool" where
  "truthy GsrFalsy = False"
| "truthy GsrTrue = True"
| "truthy (GsrFn g) = True"

record options =
  includeContainer :: bool
  displayCheck :: "string option"
  getShadowRoot :: gsr_option

text \<open>
  The host environment: whether \<open>window.CSS.escape\<close> is a function, and what
  \<open>querySelectorAll\<close> makes of the selector
  \<open>input[type="radio"][name="NAME"]\<close> with the raw name interpolated: \<open>None\<close>
  when it throws on the selector, otherwise the elements the selector selects.
\<close>

record env =
  hasCSSEscape :: bool
  rawNameSelector :: "string \<Rightarrow> (node \<Rightarrow> bool) option"

section \<open>parseInt and getTabindex\<close>

definition isWhiteSpace :: "char \<Rightarrow> bool" where
  "isWhiteSpace ch = (ch \<in> set [CHR '' '', CHR 0x09, CHR 0x0A, CHR 0x0B, CHR 0x0C, CHR 0x0D])"

definition isDigit :: "char \<Rightarrow> bool" where
  "isDigit ch = (ch \<in> set ''0123456789'')"

fun digitsValue :: "int \<Rightarrow> string \<Rightarrow> int" where
  "digitsValue acc [] = acc"
| "digitsValue acc (d # ds) = digitsValue (10 * acc + (of_char d - 48)) ds"

text \<open>
  \<open>parseInt(s, 10)\<close>: leading white space is skipped, one sign is read, then the
  longest run of decimal digits; with no digit the result is NaN, here \<open>None\<close>.
  \<open>getAttribute\<close> returns null for a missing attribute, and \<open>parseInt\<close> of
  null is NaN.
\<close>

definition parseInt :: "string option \<Rightarrow> int option" where
  "parseInt a = (case a of
     None \<Rightarrow> None
   | Some s \<Rightarrow>
       (let s1 = dropWhile isWhiteSpace s;
            neg = (s1 \<noteq> [] \<and> hd s1 = CHR ''-'');
            s2 = (if s1 \<noteq> [] \<and> (hd s1 = CHR ''-'' \<or> hd s1 = CHR ''+'') then tl s1 else s1);
            ds = takeWhile isDigit s2
        in if ds = [] then None
           else Some (if neg then - digitsValue 0 ds else digitsValue 0 ds)))"

definition getTabindex :: "element \<Rightarrow> bool \<Rightarrow> int" where
  "getTabindex e isScope =
     (if tabIndex (props e) < 0 \<and>
         (isScope \<or> tag e \<in> {''AUDIO'', ''VIDEO'', ''DETAILS''} \<or> isContentEditable (props e)) \<and>
         parseInt (tabindexAttr (props e)) = None
      then 0
      else tabIndex (props e))"

section \<open>Selectors\<close>

text \<open>
  \<open>ancestorMatches P c\<close>: some ancestor element in the same tree satisfies \<open>P\<close>,
  the meaning of the selector \<open>P *\<close>. Selectors do not cross a shadow root.
\<close>

fun ancestorMatches :: "(element \<Rightarrow> bool) \<Rightarrow> chain \<Rightarrow> bool" where
  "ancestorMatches P (Top b) = False"
| "ancestorMatches P (Child p c) = (P p \<or> ancestorMatches P c)"
| "ancestorMatches P (ShadowChild h c) = False"

definition notInertSel :: "node \<Rightarrow> bool" where
  "notInertSel n =
     (\<not> inert (props (fst n)) \<and> \<not> ancestorMatches (\<lambda>a. inert (props a)) (snd n))"

definition summaryFirstOfType :: "node \<Rightarrow> bool" where
  "summaryFirstOfType n =
     (case snd n of
        Child p c \<Rightarrow>
          tag p = ''DETAILS'' \<and> tag (fst n) = ''SUMMARY'' \<and>
          (case find (\<lambda>k. tag k = ''SUMMARY'') (children p) of
             Some k \<Rightarrow> ident (props k) = ident_of n
           | None \<Rightarrow> False)
      | _ \<Rightarrow> False)"

definition candidateSelectors :: "(node \<Rightarrow> bool) list" where
  "candidateSelectors =
     [\<lambda>n. tag (fst n) = ''INPUT'' \<and> notInertSel n,
      \<lambda>n. tag (fst n) = ''SELECT'' \<and> notInertSel n,
      \<lambda>n. tag (fst n) = ''TEXTAREA'' \<and> notInertSel n,
      \<lambda>n. tag (fst n) = ''A'' \<and> hrefAttr (props (fst n)) \<and> notInertSel n,
      \<lambda>n. tag (fst n) = ''BUTTON'' \<and> notInertSel n,
      \<lambda>n. tabindexAttr (props (fst n)) \<noteq> None \<and> tag (fst n) \<noteq> ''SLOT'' \<and> notInertSel n,
      \<lambda>n. tag (fst n) = ''AUDIO'' \<and> controlsAttr (props (fst n)) \<and> notInertSel n,
      \<lambda>n. tag (fst n) = ''VIDEO'' \<and> controlsAttr (props (fst n)) \<and> notInertSel n,
      \<lambda>n. contenteditableAttr (props (fst n)) \<noteq> None \<and>
          contenteditableAttr (props (fst n)) \<noteq> Some ''false'' \<and> notInertSel n,
      \<lambda>n. summaryFirstOfType n \<and> notInertSel n,
      \<lambda>n. tag (fst n) = ''DETAILS'' \<and> notInertSel n]"

definition focusableCandidateSelectors :: "(node \<Rightarrow> bool) list" where
  "focusableCandidateSelectors =
     candidateSelectors @
     [\<lambda>n. tag (fst n) = ''IFRAME'' \<and> \<not> ancestorMatches (\<lambda>a. inert (props a)) (snd n)]"

definition matches :: "node \<Rightarrow> (node \<Rightarrow> bool) list \<Rightarrow> bool" where
  "matches n sels = list_ex (\<lambda>sel. sel n) sels"

definition querySelectorAll :: "node \<Rightarrow> (node \<Rightarrow> bool) list \<Rightarrow> node list" where
  "querySelectorAll n sels = filter (\<lambda>m. matches m sels) (descendants n)"

section \<open>Node predicates\<close>

fun isInertUp :: "chain \<Rightarrow> bool" where
  "isInertUp (Top b) = False"
| "isInertUp (Child p c) = (inert (props p) \<or> isInertUp c)"
| "isInertUp (ShadowChild h c) = False"

text \<open>
  \<open>isInertUp\<close> is \<open>isInert(node.parentNode)\<close>: the parent node of a shadow root
  and of a document is null, and neither has an \<open>inert\<close> property.
\<close>

definition isInert :: "node \<Rightarrow> bool \<Rightarrow> bool" where
  "isInert n lookUp = (inert (props (fst n)) \<or> (lookUp \<and> isInertUp (snd n)))"

definition isInput :: "node \<Rightarrow> bool" where
  "isInput n = (tag (fst n) = ''INPUT'')"

definition isHiddenInput :: "node \<Rightarrow> bool" where
  "isHiddenInput n = (isInput n \<and> inputType (props (fst n)) = ''hidden'')"

definition isDetailsWithSummary :: "node \<Rightarrow> bool" where
  "isDetailsWithSummary n =
     (tag (fst n) = ''DETAILS'' \<and> list_ex (\<lambda>child. tag child = ''SUMMARY'') (children (fst n)))"

definition getCheckedRadio :: "node list \<Rightarrow> nat option \<Rightarrow> node option" where
  "getCheckedRadio nodes fm =
     find (\<lambda>r. checked (props (fst r)) \<and> form (props (fst r)) = fm) nodes"

fun treeNodes :: "element \<Rightarrow> chain \<Rightarrow> node list" where
  "treeNodes e (Top b) = subtree e (Top b)"
| "treeNodes e (Child p c) = treeNodes p c"
| "treeNodes e (ShadowChild h c) =
     concat (map (\<lambda>k. subtree k (ShadowChild h c))
       (case shadow h of Some (opn, kids) \<Rightarrow> kids | None \<Rightarrow> []))"

text \<open>
  \<open>getRootNode(node).querySelectorAll\<close> ranges over the elements below the root:
  all elements of a document or of a shadow root; for a detached tree the root is its
  top element, which \<open>querySelectorAll\<close> does not return.
\<close>

fun rootQueryAll :: "element \<Rightarrow> chain \<Rightarrow> node list" where
  "rootQueryAll e (Top True) = subtree e (Top True)"
| "rootQueryAll e (Top False) = descendants (e, Top False)"
| "rootQueryAll e (Child p c) = rootQueryAll p c"
| "rootQueryAll e (ShadowChild h c) = treeNodes e (ShadowChild h c)"

text \<open>
  \<open>radioScope = node.form || getRootNode(node)\<close>, and the elements a query on it
  ranges over. The form owner is looked up by identity in the tree of the node.
\<close>

definition radioScopeAll :: "node \<Rightarrow> node list" where
  "radioScopeAll n =
     (case form (props (fst n)) of
        Some f \<Rightarrow>
          (case find (\<lambda>m. ident_of m = f) (treeNodes (fst n) (snd n)) of
             Some fm \<Rightarrow> descendants fm
           | None \<Rightarrow> [])
      | None \<Rightarrow> rootQueryAll (fst n) (snd n))"

definition escapedNameSelector :: "string \<Rightarrow> node \<Rightarrow> bool" where
  "escapedNameSelector nm m =
     (tag (fst m) = ''INPUT'' \<and> inputType (props (fst m)) = ''radio'' \<and> name (props (fst m)) = nm)"

definition radioDiagnostic :: string where
  "radioDiagnostic = ''Looks like you have a radio button with a name attribute containing invalid CSS selector characters and need the CSS.escape polyfill''"

text \<open>
  \<open>isTabbableRadio\<close> returns what it writes to \<open>console.error\<close> and its result.
  The selector built from \<open>CSS.escape(name)\<close> is always valid and selects the radio
  inputs of that name; the raw one may make \<open>querySelectorAll\<close> throw, which the
  \<open>try\<close> catches.
\<close>

definition isTabbableRadio :: "env \<Rightarrow> node \<Rightarrow> string list \<times> bool" where
  "isTabbableRadio ev n =
     (if name (props (fst n)) = [] then ([], True)
      else
        (let finish = (\<lambda>radioSet.
               (case getCheckedRadio radioSet (form (props (fst n))) of
                  None \<Rightarrow> ([], True)
                | Some chk \<Rightarrow> ([], ident_of chk = ident_of n)))
         in if hasCSSEscape ev
            then finish (filter (escapedNameSelector (name (props (fst n)))) (radioScopeAll n))
            else (case rawNameSelector ev (name (props (fst n))) of
                    None \<Rightarrow> ([radioDiagnostic], False)
                  | Some sel \<Rightarrow> finish (filter sel (radioScopeAll n)))))"

definition isRadio :: "node \<Rightarrow> bool" where
  "isRadio n = (isInput n \<and> inputType (props (fst n)) = ''radio'')"

definition isNonTabbableRadio :: "env \<Rightarrow> node \<Rightarrow> bool" where
  "isNonTabbableRadio ev n = (isRadio n \<and> \<not> snd (isTabbableRadio ev n))"

text \<open>
  \<open>isNodeAttached\<close>. \<open>rootHost\<close> is \<open>getRootNode(node)?.host\<close> with the position
  of that host; \<open>inDocument\<close> is \<open>x.ownerDocument.contains(x)\<close>, which does not
  look into shadow trees. The root of a node is the node itself exactly when it is the
  top of a detached tree. \<open>hostLoop\<close> is the \<open>while\<close> loop, started at the position
  of the current \<open>nodeRootHost\<close>: it climbs to the next host and tests it.
\<close>

fun rootHost :: "chain \<Rightarrow> node option" where
  "rootHost (Top b) = None"
| "rootHost (Child p c) = rootHost c"
| "rootHost (ShadowChild h c) = Some (h, c)"

fun inDocument :: "chain \<Rightarrow> bool" where
  "inDocument (Top b) = b"
| "inDocument (Child p c) = inDocument c"
| "inDocument (ShadowChild h c) = False"

fun hostLoop :: "chain \<Rightarrow> bool" where
  "hostLoop (Top b) = False"
| "hostLoop (Child p c) = hostLoop c"
| "hostLoop (ShadowChild h c) = (if inDocument c then True else hostLoop c)"

definition isNodeAttached :: "node \<Rightarrow> bool" where
  "isNodeAttached n =
     (if snd n = Top False then False
      else (case rootHost (snd n) of
              None \<Rightarrow> inDocument (snd n)
            | Some (h, c) \<Rightarrow>
                if inDocument c \<or> inDocument (snd n) then True else hostLoop c))"

definition isZeroArea :: "props \<Rightarrow> bool" where
  "isZeroArea p = (width p = 0 \<and> height p = 0)"

fun wview :: "element \<Rightarrow> chain \<Rightarrow> wnode" where
  "wview e (Top b) = WNode (props e) (shadowRoot e \<noteq> None) WTop"
| "wview e (Child p c) =
     WNode (props e) (shadowRoot e \<noteq> None) (WParent (wview p c) (assignedSlot e))"
| "wview e (ShadowChild h c) = WNode (props e) (shadowRoot e \<noteq> None) (WHost (wview h c))"

text \<open>
  The loop of \<open>isHidden\<close> that looks for an undisclosed shadow root above the node.
  \<open>Some z\<close>: the loop returned \<open>isZeroArea\<close> of the node it had reached; \<open>None\<close>:
  it ran off the top.
\<close>

fun undisclosedWalk :: "(props \<Rightarrow> gsr_answer) \<Rightarrow> wnode \<Rightarrow> bool option" where
  "undisclosedWalk g (WNode p sh WTop) = None"
| "undisclosedWalk g (WNode p sh (WHost h)) = undisclosedWalk g h"
| "undisclosedWalk g (WNode p sh (WParent par slot)) =
     (if \<not> whasShadowRoot par \<and> g (wprops par) = ATrue then Some (isZeroArea p)
      else (case slot of
              Some s \<Rightarrow> undisclosedWalk g s
            | None \<Rightarrow> undisclosedWalk g par))"

definition closedDetails :: "element \<Rightarrow> bool" where
  "closedDetails a = (tag a = ''DETAILS'' \<and> \<not> openAttr (props a))"

text \<open>
  \<open>nodeUnderDetails\<close> is \<open>isDirectSummary ? node.parentElement : node\<close>, and
  \<open>undisclosedFallback\<close> the loop above, which runs only when \<open>getShadowRoot\<close> is a
  function.
\<close>

definition nodeUnderDetails :: "node \<Rightarrow> node" where
  "nodeUnderDetails n =
     (if summaryFirstOfType n
      then (case parentElement n of Some pn \<Rightarrow> pn | None \<Rightarrow> n)
      else n)"

definition undisclosedFallback :: "options \<Rightarrow> node \<Rightarrow> bool option" where
  "undisclosedFallback opts n =
     (case getShadowRoot opts of
        GsrFn g \<Rightarrow> undisclosedWalk g (wview (fst n) (snd n))
      | _ \<Rightarrow> None)"

definition isHidden :: "options \<Rightarrow> node \<Rightarrow> bool" where
  "isHidden opts n =
     (if visibility (props (fst n)) = ''hidden'' then True
      else if ancestorMatches closedDetails (snd (nodeUnderDetails n)) then True
      else if displayCheck opts = None \<or> displayCheck opts = Some [] \<or>
              displayCheck opts = Some ''full'' \<or>
              displayCheck opts = Some ''legacy-full''
      then
        (case undisclosedFallback opts n of
           Some z \<Rightarrow> z
         | None \<Rightarrow>
             if isNodeAttached n then clientRects (props (fst n)) = 0
             else if displayCheck opts \<noteq> Some ''legacy-full'' then True
             else False)
      else if displayCheck opts = Some ''non-zero-area'' then isZeroArea (props (fst n))
      else False)"

definition disabledFieldset :: "element \<Rightarrow> bool" where
  "disabledFieldset a = (tag a = ''FIELDSET'' \<and> disabled (props a))"

fun fieldsetLoop :: "node \<Rightarrow> chain \<Rightarrow> bool" where
  "fieldsetLoop n (Top b) = False"
| "fieldsetLoop n (ShadowChild h c) = False"
| "fieldsetLoop n (Child p c) =
     (if tag p = ''FIELDSET'' \<and> disabled (props p)
      then (case find (\<lambda>child. tag child = ''LEGEND'') (children p) of
              Some child \<Rightarrow>
                if ancestorMatches disabledFieldset c then True else \<not> contains child n
            | None \<Rightarrow> True)
      else fieldsetLoop n c)"

definition isDisabledFromFieldset :: "node \<Rightarrow> bool" where
  "isDisabledFromFieldset n =
     (if tag (fst n) \<in> {''INPUT'', ''BUTTON'', ''SELECT'', ''TEXTAREA''}
      then fieldsetLoop n (snd n)
      else False)"

section \<open>Classifier\<close>

definition isNodeMatchingSelectorFocusable :: "options \<Rightarrow> node \<Rightarrow> bool" where
  "isNodeMatchingSelectorFocusable opts n =
     (if disabled (props (fst n)) \<or> isInert n False \<or> isHiddenInput n \<or> isHidden opts n \<or>
         isDetailsWithSummary n \<or> isDisabledFromFieldset n
      then False else True)"

definition isNodeMatchingSelectorTabbable :: "env \<Rightarrow> options \<Rightarrow> node \<Rightarrow> bool" where
  "isNodeMatchingSelectorTabbable ev opts n =
     (if isNonTabbableRadio ev n \<or> getTabindex (fst n) False < 0 \<or>
         \<not> isNodeMatchingSelectorFocusable opts n
      then False else True)"

definition isValidShadowRootTabbable :: "node \<Rightarrow> bool" where
  "isValidShadowRootTabbable shadowHostNode =
     (case parseInt (tabindexAttr (props (fst shadowHostNode))) of
        None \<Rightarrow> True
      | Some t \<Rightarrow> t \<ge> 0)"

section \<open>Candidate collectors\<close>

definition getCandidates :: "node \<Rightarrow> bool \<Rightarrow> (node \<Rightarrow> bool) \<Rightarrow> node list" where
  "getCandidates el incl flt =
     (if isInert el True then []
      else filter flt
             ((if incl \<and> matches el candidateSelectors then [el] else []) @
              querySelectorAll el candidateSelectors))"

datatype item = Cand node | Scope node "item list"

record iterativeOptions =
  io_getShadowRoot :: gsr_option
  io_filter :: "node \<Rightarrow> bool"
  io_flatten :: bool
  io_shadowRootFilter :: "(node \<Rightarrow> bool) option"

text \<open>
  \<open>element.shadowRoot || (typeof getShadowRoot === 'function' && getShadowRoot(element))\<close>:
  \<open>SFalsy\<close>, \<open>STrue\<close> (an undisclosed shadow root) or the children of the root.
\<close>

datatype shadow_result = SFalsy | STrue | SRoot "element list"

definition shadowRootOf :: "gsr_option \<Rightarrow> element \<Rightarrow> shadow_result" where
  "shadowRootOf gsr e =
     (case shadowRoot e of
        Some kids \<Rightarrow> SRoot kids
      | None \<Rightarrow>
          (case gsr of
             GsrFn g \<Rightarrow>
               (case g (props e) of
                  AFalsy \<Rightarrow> SFalsy
                | ATrue \<Rightarrow> STrue
                | ARoot \<Rightarrow> (case shadow e of Some (opn, kids) \<Rightarrow> SRoot kids | None \<Rightarrow> SFalsy))
           | _ \<Rightarrow> SFalsy))"

text \<open>
  The elements of \<open>slot.assignedElements()\<close> are children of the host of the shadow
  tree the slot is in, and that is their position.
\<close>

definition assignedNodes :: "node \<Rightarrow> node list" where
  "assignedNodes n =
     map (\<lambda>k. (k, (case rootHost (snd n) of Some (h, c) \<Rightarrow> Child h c | None \<Rightarrow> Top False)))
       (assignedElements (fst n))"

text \<open>
  The pieces of one round of the loop of \<open>getCandidatesIteratively\<close>:
  \<open>slotContent\<close> is \<open>assigned.length ? assigned : element.children\<close>; \<open>pushed\<close> is
  the push of the element itself; \<open>shadowContent\<close> is the list the loop recurses into
  when \<open>shadowRoot && validShadowRoot\<close> holds (a shadow root and \<open>true\<close> have no
  \<open>inert\<close> property, so \<open>isInert(shadowRoot, false)\<close> is false); \<open>nest\<close> pushes
  the nested candidates, flat or as a scope.
\<close>

definition slotContent :: "node \<Rightarrow> node list" where
  "slotContent n =
     (let assigned = assignedNodes n in if assigned \<noteq> [] then assigned else childNodes n)"

definition pushed :: "nat list \<Rightarrow> bool \<Rightarrow> iterativeOptions \<Rightarrow> node \<Rightarrow> item list" where
  "pushed roots incl io n =
     (let validCandidate = matches n candidateSelectors in
      if validCandidate \<and> io_filter io n \<and> (incl \<or> ident_of n \<notin> set roots)
      then [Cand n] else [])"

definition shadowContent :: "iterativeOptions \<Rightarrow> node \<Rightarrow> node list option" where
  "shadowContent io n =
     (let shadowRt = shadowRootOf (io_getShadowRoot io) (fst n);
          validShadowRoot = (case io_shadowRootFilter io of None \<Rightarrow> True | Some f \<Rightarrow> f n)
      in if shadowRt \<noteq> SFalsy \<and> validShadowRoot
         then Some (case shadowRt of
                      SRoot kids \<Rightarrow> shadowChildNodes n kids
                    | _ \<Rightarrow> childNodes n)
         else None)"

definition nest :: "iterativeOptions \<Rightarrow> node \<Rightarrow> item list \<Rightarrow> item list" where
  "nest io n nestedCandidates =
     (if io_flatten io then nestedCandidates else [Scope n nestedCandidates])"

text \<open>
  \<open>getCandidatesIteratively\<close>: \<open>collect roots incl io ws\<close> runs the \<open>while\<close> loop
  on the work list \<open>ws\<close> (\<open>elementsToCheck\<close>); \<open>roots\<close> are the identities of the
  argument \<open>elements\<close>. The candidates of one element are pushed before the loop goes
  on, so the result is their concatenation in loop order. A recursive call passes
  \<open>true\<close> for \<open>includeContainer\<close>.
\<close>

function collect :: "nat list \<Rightarrow> bool \<Rightarrow> iterativeOptions \<Rightarrow> node list \<Rightarrow> item list" where
  "collect roots incl io [] = []"
| "collect roots incl io ((Element p ks sh asg sl, c) # rest) =
     (if isInert (Element p ks sh asg sl, c) False then collect roots incl io rest
      else if tagName p = ''SLOT'' then
        nest io (Element p ks sh asg sl, c)
          (collect (map ident_of (slotContent (Element p ks sh asg sl, c))) True io
             (slotContent (Element p ks sh asg sl, c))) @
        collect roots incl io rest
      else
        (case shadowContent io (Element p ks sh asg sl, c) of
           Some content \<Rightarrow>
             pushed roots incl io (Element p ks sh asg sl, c) @
             nest io (Element p ks sh asg sl, c)
               (collect (map ident_of content) True io content) @
             collect roots incl io rest
         | None \<Rightarrow>
             pushed roots incl io (Element p ks sh asg sl, c) @
             collect roots incl io (childNodes (Element p ks sh asg sl, c) @ rest)))"
  by pat_completeness auto
termination
proof (relation "measure (\<lambda>(roots, incl, io, ws). sum_list (map (\<lambda>n. size (fst n)) ws))")
  show "wf (measure (\<lambda>(roots, incl, io, ws). sum_list (map (\<lambda>n. size (fst n)) ws)))"
    by simp
qed (auto simp: slotContent_def shadowContent_def assignedNodes_def childNodes_def
       shadowChildNodes_def shadowRootOf_def shadowRoot_def comp_def size_list_conv_sum_list
       Let_def
     split: if_splits shadow_result.splits option.splits gsr_option.splits gsr_answer.splits
       bool.splits)

definition getCandidatesIteratively ::
    "node list \<Rightarrow> bool \<Rightarrow> iterativeOptions \<Rightarrow> item list" where
  "getCandidatesIteratively elements incl io = collect (map ident_of elements) incl io elements"

section \<open>Tab-order sorter\<close>

text \<open>
  One entry of \<open>orderedTabbables\<close>. \<open>content\<close> is the list that the final
  \<open>reduce\<close> appends: the sorted candidates of a scope, or the one element.
\<close>

record sortable =
  documentOrder :: nat
  s_tabIndex :: int
  s_item :: item
  isScope :: bool
  content :: "node list"

fun scopeParentOf :: "item \<Rightarrow> element" where
  "scopeParentOf (Cand n) = fst n"
| "scopeParentOf (Scope n its) = fst n"

fun isScopeItem :: "item \<Rightarrow> bool" where
  "isScopeItem (Cand n) = False"
| "isScopeItem (Scope n its) = True"

definition candidateTabindex :: "item \<Rightarrow> int" where
  "candidateTabindex it = getTabindex (scopeParentOf it) (isScopeItem it)"

text \<open>
  \<open>sortOrderedTabbables\<close> compares by \<open>tabIndex\<close>, then by \<open>documentOrder\<close>: the
  lexicographic order of the pair. The document orders are distinct, so the sorted
  list does not depend on the sorting algorithm.
\<close>

definition sortKey :: "sortable \<Rightarrow> int \<times> nat" where
  "sortKey s = (s_tabIndex s, documentOrder s)"

definition assemble :: "item list \<Rightarrow> node list list \<Rightarrow> node list" where
  "assemble candidates elements =
     (let entries = map (\<lambda>(i, it, els).
              \<lparr>documentOrder = i, s_tabIndex = candidateTabindex it, s_item = it,
               isScope = isScopeItem it, content = els\<rparr>)
            (zip [0..<length candidates] (zip candidates elements));
          regularTabbables = concat (map content (filter (\<lambda>s. s_tabIndex s = 0) entries));
          orderedTabbables = filter (\<lambda>s. s_tabIndex s \<noteq> 0) entries
      in concat (map content (sort_key sortKey orderedTabbables)) @ regularTabbables)"

fun sortByOrder :: "item list \<Rightarrow> node list"
  and itemElements :: "item \<Rightarrow> node list" where
  "sortByOrder candidates = assemble candidates (map itemElements candidates)"
| "itemElements (Cand n) = [n]"
| "itemElements (Scope n its) = sortByOrder its"

section \<open>Queries\<close>

fun flat :: "item \<Rightarrow> node list" where
  "flat (Cand n) = [n]"
| "flat (Scope n its) = concat (map flat its)"

definition tabbable :: "env \<Rightarrow> node \<Rightarrow> options \<Rightarrow> node list" where
  "tabbable ev el opts =
     (let candidates =
        (if truthy (getShadowRoot opts)
         then getCandidatesIteratively [el] (includeContainer opts)
                \<lparr>io_getShadowRoot = getShadowRoot opts,
                 io_filter = isNodeMatchingSelectorTabbable ev opts,
                 io_flatten = False,
                 io_shadowRootFilter = Some isValidShadowRootTabbable\<rparr>
         else map Cand (getCandidates el (includeContainer opts)
                          (isNodeMatchingSelectorTabbable ev opts)))
      in sortByOrder candidates)"

text \<open>
  In flatten mode the iterative collector builds no scope, and \<open>flat\<close> only unwraps
  the candidates.
\<close>

definition focusable :: "node \<Rightarrow> options \<Rightarrow> node list" where
  "focusable el opts =
     (if truthy (getShadowRoot opts)
      then concat (map flat (getCandidatesIteratively [el] (includeContainer opts)
             \<lparr>io_getShadowRoot = getShadowRoot opts,
              io_filter = isNodeMatchingSelectorFocusable opts,
              io_flatten = True,
              io_shadowRootFilter = None\<rparr>))
      else getCandidates el (includeContainer opts) (isNodeMatchingSelectorFocusable opts))"

datatype error = NoNodeProvided

definition isTabbable :: "env \<Rightarrow> node option \<Rightarrow> options \<Rightarrow> error + bool" where
  "isTabbable ev nd opts =
     (case nd of
        None \<Rightarrow> Inl NoNodeProvided
      | Some n \<Rightarrow>
          if matches n candidateSelectors = False then Inr False
          else Inr (isNodeMatchingSelectorTabbable ev opts n))"

definition isFocusable :: "node option \<Rightarrow> options \<Rightarrow> error + bool" where
  "isFocusable nd opts =
     (case nd of
        None \<Rightarrow> Inl NoNodeProvided
      | Some n \<Rightarrow>
          if matches n focusableCandidateSelectors = False then Inr False
          else Inr (isNodeMatchingSelectorFocusable opts n))"

section \<open>The specification's reading of the effective tab index\<close>



section \<open>Radio groups\<close>

text \<open>
  The group of a radio: the radio inputs of its name that have its form owner, among
  the elements below its form owner, or below its root when it has no form owner.
\<close>

definition radioGroup :: "node \<Rightarrow> node list" where
  "radioGroup n =
     filter (\<lambda>m. escapedNameSelector (name (props (fst n))) m \<and>
                 form (props (fst m)) = form (props (fst n)))
       (radioScopeAll n)"

section \<open>Disabled fieldsets and the legend exemption\<close>

definition isFormControl :: "node \<Rightarrow> bool" where
  "isFormControl n = (tag (fst n) \<in> {''INPUT'', ''BUTTON'', ''SELECT'', ''TEXTAREA''})"

text \<open>The disabled fieldsets a node is nested in, nearest first, each with its position.\<close>

fun disabledFieldsetsAbove :: "chain \<Rightarrow> node list" where
  "disabledFieldsetsAbove (Top b) = []"
| "disabledFieldsetsAbove (ShadowChild h c) = []"
| "disabledFieldsetsAbove (Child p c) =
     (if disabledFieldset p then [(p, c)] else []) @ disabledFieldsetsAbove c"

text \<open>
  The legend exemption of a node with respect to a disabled fieldset: the node is a
  descendant of the first legend child of the fieldset, and the fieldset is not nested
  in another disabled fieldset.
\<close>

definition legendExempt :: "node \<Rightarrow> node \<Rightarrow> bool" where
  "legendExempt n fs =
     (case find (\<lambda>child. tag child = ''LEGEND'') (children (fst fs)) of
        Some legend \<Rightarrow> contains legend n \<and> disabledFieldsetsAbove (snd fs) = []
      | None \<Rightarrow> False)"

section \<open>The focusability predicate of the specification\<close>



section \<open>Example documents\<close>

text \<open>
  A rendered \<open>div\<close> with no attribute: the native tab index is \<open>-1\<close>, it has one
  client rectangle and a 10 by 10 box. The examples below change the fields they need.
\<close>

definition plain :: props where
  "plain = \<lparr>ident = 0, tagName = ''DIV'', disabled = False, inert = False, tabIndex = - 1,
     tabindexAttr = None, isContentEditable = False, contenteditableAttr = None,
     hrefAttr = False, controlsAttr = False, openAttr = False, inputType = [], name = [],
     checked = False, form = None, visibility = ''visible'', clientRects = 1,
     width = 10, height = 10\<rparr>"

definition leaf :: "props \<Rightarrow> element" where
  "leaf p = Element p [] None [] None"

definition box :: "props \<Rightarrow> element list \<Rightarrow> element" where
  "box p ks = Element p ks None [] None"

definition button :: "nat \<Rightarrow> props" where
  "button i = plain\<lparr>ident := i, tagName := ''BUTTON'', tabIndex := 0\<rparr>"

definition defaults :: options where
  "defaults = \<lparr>includeContainer = False, displayCheck = None, getShadowRoot = GsrFalsy\<rparr>"

definition browser :: env where
  "browser = \<lparr>hasCSSEscape = True, rawNameSelector = (\<lambda>nm. None)\<rparr>"

text \<open>
  An environment without \<open>CSS.escape\<close>, in which a name holding a double quote makes
  the radio selector invalid and any other name is matched as it stands.
\<close>

definition legacyBrowser :: env where
  "legacyBrowser = \<lparr>hasCSSEscape = False,
     rawNameSelector = (\<lambda>nm. if CHR 0x22 \<in> set nm then None else Some (escapedNameSelector nm))\<rparr>"

definition quotedName :: string where
  "quotedName = [CHR ''a'', CHR 0x22, CHR ''b'']"

definition radio :: "nat \<Rightarrow> string \<Rightarrow> bool \<Rightarrow> props" where
  "radio i nm chk = plain\<lparr>ident := i, tagName := ''INPUT'', tabIndex := 0,
     inputType := ''radio'', name := nm, checked := chk\<rparr>"

text \<open>Three radios named \<open>r\<close> in one container, the second one checked.\<close>

definition threeRadios :: node where
  "threeRadios =
     (box plain [leaf (radio 1 ''r'' False), leaf (radio 2 ''r'' True), leaf (radio 3 ''r'' False)],
      Top True)"

text \<open>
  A disabled fieldset with a legend holding one text input, followed by another text
  input.
\<close>

definition textInput :: "nat \<Rightarrow> props" where
  "textInput i = plain\<lparr>ident := i, tagName := ''INPUT'', tabIndex := 0, inputType := ''text''\<rparr>"

definition fieldsetElement :: element where
  "fieldsetElement =
     box (plain\<lparr>ident := 1, tagName := ''FIELDSET'', disabled := True\<rparr>)
       [box (plain\<lparr>ident := 2, tagName := ''LEGEND''\<rparr>) [leaf (textInput 3)],
        leaf (textInput 4)]"

definition legendFieldset :: node where
  "legendFieldset = (box plain [fieldsetElement], Top True)"

definition outsideLegend :: node where
  "outsideLegend =
     (leaf (textInput 4), Child fieldsetElement (Child (fst legendFieldset) (Top True)))"

text \<open>
  A host with an open shadow root that holds a button with \<open>tabindex="1"\<close> and a slot
  with \<open>tabindex="-1"\<close>; the one child of the host, a button, is assigned to the slot.
\<close>

definition slotProps :: props where
  "slotProps = plain\<lparr>ident := 3, tagName := ''SLOT'', tabindexAttr := Some ''-1'',
     clientRects := 0, width := 0, height := 0\<rparr>"

definition hostProps :: props where
  "hostProps = plain\<lparr>ident := 1\<rparr>"

definition slottedButton :: element where
  "slottedButton =
     Element (button 4) [] None []
       (Some (WNode slotProps False (WHost (WNode hostProps True WTop))))"

definition shadowButton :: element where
  "shadowButton = leaf ((button 2)\<lparr>tabIndex := 1, tabindexAttr := Some ''1''\<rparr>)"

definition slotElement :: element where
  "slotElement = Element slotProps [] None [slottedButton] None"

definition slotHost :: node where
  "slotHost =
     (Element hostProps [slottedButton] (Some (True, [shadowButton, slotElement])) [] None,
      Top True)"

definition shadowAware :: options where
  "shadowAware = defaults\<lparr>getShadowRoot := GsrTrue\<rparr>"


section \<open>Tabbable implies focusable\<close>

lemma matches_candidate_focusable:
  "matches n candidateSelectors \<Longrightarrow> matches n focusableCandidateSelectors"
  by (simp add: matches_def focusableCandidateSelectors_def)

text \<open>
  Claim C2. For every node and every options value, if the single-node query
  \<open>isTabbable\<close> returns true then \<open>isFocusable\<close> returns true as well: the selector
  of \<open>isFocusable\<close> extends the one of \<open>isTabbable\<close>, and the tabbable predicate
  contains the focusable one.
\<close>

theorem isTabbable_implies_isFocusable:
  "isTabbable ev nd opts = Inr True \<Longrightarrow> isFocusable nd opts = Inr True"
  by (cases nd)
     (auto simp: isTabbable_def isFocusable_def isNodeMatchingSelectorTabbable_def
        matches_candidate_focusable split: if_splits)

theorem isTabbable_implies_isFocusable_witness:
  "isTabbable browser (Some (leaf (button 1), Top True)) defaults = Inr True \<and>
   isFocusable (Some (leaf (button 1), Top True)) defaults = Inr True"
proof -
  have h: "isTabbable browser (Some (leaf (button 1), Top True)) defaults = Inr True"
    by code_simp
  from isTabbable_implies_isFocusable [OF h] h show ?thesis by simp
qed

section \<open>Effective tab index\<close>




section \<open>Visibility\<close>

text \<open>
  Claim C7, as the specification states it, fails: with \<open>displayCheck\<close> set to
  \<open>none\<close>, a node whose computed visibility is \<open>hidden\<close> is reported hidden.
\<close>

theorem isHidden_none_counterexample:
  "isHidden (defaults\<lparr>displayCheck := Some ''none''\<rparr>)
     (leaf (plain\<lparr>visibility := ''hidden''\<rparr>), Top True) = True"
  by code_simp

text \<open>
  Claim C7, amended. When \<open>displayCheck\<close> is \<open>none\<close>, \<open>isHidden\<close> reports a node
  hidden exactly when its computed visibility is \<open>hidden\<close> or it lies under a closed
  \<open>details\<close> element (its parent does, for the first \<open>summary\<close> of a \<open>details\<close>);
  display and geometry are not consulted.
\<close>

theorem isHidden_none:
  "displayCheck opts = Some ''none'' \<Longrightarrow>
   isHidden opts n =
     (visibility (props (fst n)) = ''hidden'' \<or>
      ancestorMatches closedDetails (snd (nodeUnderDetails n)))"
  by (simp add: isHidden_def)

theorem isHidden_none_witness:
  "displayCheck (defaults\<lparr>displayCheck := Some ''none''\<rparr>) = Some ''none'' \<and>
   isHidden (defaults\<lparr>displayCheck := Some ''none''\<rparr>)
       (leaf (plain\<lparr>clientRects := 0\<rparr>), Top False) =
     (visibility (props (fst (leaf (plain\<lparr>clientRects := 0\<rparr>), Top False))) = ''hidden'' \<or>
      ancestorMatches closedDetails
        (snd (nodeUnderDetails (leaf (plain\<lparr>clientRects := 0\<rparr>), Top False)))) \<and>
   \<not> isHidden (defaults\<lparr>displayCheck := Some ''none''\<rparr>)
       (leaf (plain\<lparr>clientRects := 0\<rparr>), Top False)"
proof -
  have h: "displayCheck (defaults\<lparr>displayCheck := Some ''none''\<rparr>) = Some ''none''"
    by simp
  have v: "\<not> isHidden (defaults\<lparr>displayCheck := Some ''none''\<rparr>)
             (leaf (plain\<lparr>clientRects := 0\<rparr>), Top False)"
    by code_simp
  from h isHidden_none [OF h] v show ?thesis by blast
qed

text \<open>
  Claim C8, as the specification states it, fails: under \<open>non-zero-area\<close> an attached
  node with a 10 by 10 box and computed visibility \<open>hidden\<close> is reported hidden.
\<close>

theorem isHidden_modes_counterexample:
  "isHidden (defaults\<lparr>displayCheck := Some ''non-zero-area''\<rparr>)
     (leaf (plain\<lparr>visibility := ''hidden'', width := 10, height := 10\<rparr>), Top True) \<and>
   \<not> (width (plain\<lparr>visibility := ''hidden'', width := 10, height := 10\<rparr>) = 0 \<and>
      height (plain\<lparr>visibility := ''hidden'', width := 10, height := 10\<rparr>) = 0)"
  by code_simp

text \<open>
  Claim C8, amended. For every node that is not attached and to which the
  undisclosed-shadow fallback does not apply: under \<open>full\<close> (and with no
  \<open>displayCheck\<close>) it is reported hidden; under \<open>legacy-full\<close> it is reported
  visible unless its computed visibility is \<open>hidden\<close> or it lies under a closed
  \<open>details\<close>. Under \<open>non-zero-area\<close> a node, attached or not, is reported hidden
  exactly when its bounding box has zero width and zero height, or its computed
  visibility is \<open>hidden\<close>, or it lies under a closed \<open>details\<close>.
\<close>

theorem isHidden_modes:
  "(\<not> isNodeAttached n \<and> undisclosedFallback opts n = None \<and>
    (displayCheck opts = None \<or> displayCheck opts = Some ''full'') \<longrightarrow> isHidden opts n) \<and>
   (\<not> isNodeAttached n \<and> undisclosedFallback opts n = None \<and>
    displayCheck opts = Some ''legacy-full'' \<longrightarrow>
    isHidden opts n =
      (visibility (props (fst n)) = ''hidden'' \<or>
       ancestorMatches closedDetails (snd (nodeUnderDetails n)))) \<and>
   (displayCheck opts = Some ''non-zero-area'' \<longrightarrow>
    isHidden opts n =
      (visibility (props (fst n)) = ''hidden'' \<or>
       ancestorMatches closedDetails (snd (nodeUnderDetails n)) \<or>
       (width (props (fst n)) = 0 \<and> height (props (fst n)) = 0)))"
  by (auto simp: isHidden_def isZeroArea_def)

theorem isHidden_modes_witness:
  "\<not> isNodeAttached (leaf plain, Top False) \<and>
   undisclosedFallback (defaults\<lparr>displayCheck := Some ''full''\<rparr>) (leaf plain, Top False) = None \<and>
   undisclosedFallback (defaults\<lparr>displayCheck := Some ''legacy-full''\<rparr>)
     (leaf plain, Top False) = None \<and>
   isHidden (defaults\<lparr>displayCheck := Some ''full''\<rparr>) (leaf plain, Top False) \<and>
   \<not> isHidden (defaults\<lparr>displayCheck := Some ''legacy-full''\<rparr>) (leaf plain, Top False) \<and>
   \<not> isHidden (defaults\<lparr>displayCheck := Some ''non-zero-area''\<rparr>) (leaf plain, Top False) \<and>
   isHidden (defaults\<lparr>displayCheck := Some ''non-zero-area''\<rparr>)
     (leaf (plain\<lparr>width := 0, height := 0\<rparr>), Top True)"
proof -
  have a1: "visibility (props (fst (leaf plain, Top False))) \<noteq> ''hidden''"
    by code_simp
  have a2: "\<not> ancestorMatches closedDetails (snd (nodeUnderDetails (leaf plain, Top False)))"
    by code_simp
  have a3: "\<not> (width (props (fst (leaf plain, Top False))) = 0 \<and>
               height (props (fst (leaf plain, Top False))) = 0)"
    by code_simp
  have z: "width (props (fst (leaf (plain\<lparr>width := 0, height := 0\<rparr>), Top True))) = 0 \<and>
           height (props (fst (leaf (plain\<lparr>width := 0, height := 0\<rparr>), Top True))) = 0"
    by code_simp
  have d: "\<not> isNodeAttached (leaf plain, Top False)"
    by code_simp
  have u1: "undisclosedFallback (defaults\<lparr>displayCheck := Some ''full''\<rparr>)
              (leaf plain, Top False) = None"
    by code_simp
  have u2: "undisclosedFallback (defaults\<lparr>displayCheck := Some ''legacy-full''\<rparr>)
              (leaf plain, Top False) = None"
    by code_simp
  have c1: "displayCheck (defaults\<lparr>displayCheck := Some ''full''\<rparr>) = Some ''full''"
    by simp
  have c2: "displayCheck (defaults\<lparr>displayCheck := Some ''legacy-full''\<rparr>) =
              Some ''legacy-full''"
    by simp
  have c3: "displayCheck (defaults\<lparr>displayCheck := Some ''non-zero-area''\<rparr>) =
              Some ''non-zero-area''"
    by simp
  from isHidden_modes [of "(leaf plain, Top False)" "defaults\<lparr>displayCheck := Some ''full''\<rparr>"]
    d u1 c1
  have r1: "isHidden (defaults\<lparr>displayCheck := Some ''full''\<rparr>) (leaf plain, Top False)"
    by blast
  from isHidden_modes
         [of "(leaf plain, Top False)" "defaults\<lparr>displayCheck := Some ''legacy-full''\<rparr>"]
    d u2 c2 a1 a2
  have r2: "\<not> isHidden (defaults\<lparr>displayCheck := Some ''legacy-full''\<rparr>)
              (leaf plain, Top False)"
    by blast
  from isHidden_modes
         [of "(leaf plain, Top False)" "defaults\<lparr>displayCheck := Some ''non-zero-area''\<rparr>"]
    c3 a1 a2 a3
  have r3: "\<not> isHidden (defaults\<lparr>displayCheck := Some ''non-zero-area''\<rparr>)
              (leaf plain, Top False)"
    by blast
  from isHidden_modes
         [of "(leaf (plain\<lparr>width := 0, height := 0\<rparr>), Top True)"
             "defaults\<lparr>displayCheck := Some ''non-zero-area''\<rparr>"]
    c3 z
  have r4: "isHidden (defaults\<lparr>displayCheck := Some ''non-zero-area''\<rparr>)
              (leaf (plain\<lparr>width := 0, height := 0\<rparr>), Top True)"
    by blast
  from d u1 u2 r1 r2 r3 r4 show ?thesis by blast
qed

section \<open>Radio groups: classification\<close>

lemma find_filter: "find P (filter Q xs) = find (\<lambda>x. Q x \<and> P x) xs"
  by (induction xs) auto

lemma getCheckedRadio_group:
  "getCheckedRadio (filter (escapedNameSelector (name (props (fst n)))) (radioScopeAll n))
     (form (props (fst n))) =
   find (\<lambda>r. checked (props (fst r))) (radioGroup n)"
  by (simp add: getCheckedRadio_def radioGroup_def find_filter conj_commute conj_left_commute) 

text \<open>
  Claim C5. When \<open>CSS.escape\<close> is not available and the selector built from the raw
  name of a radio is invalid, \<open>isTabbableRadio\<close> catches the failure, writes one
  diagnostic and returns false: the radio is classified non-tabbable, and the query
  \<open>isTabbable\<close> returns false for it instead of failing.
\<close>

theorem radio_selector_failure:
  assumes "\<not> hasCSSEscape ev"
    and "name (props (fst n)) \<noteq> []"
    and "rawNameSelector ev (name (props (fst n))) = None"
  shows "isTabbableRadio ev n = ([radioDiagnostic], False) \<and>
         (isRadio n \<longrightarrow>
            isNonTabbableRadio ev n \<and>
            \<not> isNodeMatchingSelectorTabbable ev opts n \<and>
            isTabbable ev (Some n) opts = Inr False)"
  using assms
  by (simp add: isTabbableRadio_def isNonTabbableRadio_def isTabbable_def
      isNodeMatchingSelectorTabbable_def)

theorem radio_selector_failure_witness:
  "\<not> hasCSSEscape legacyBrowser \<and>
   name (props (fst (leaf (radio 1 quotedName False), Top True))) \<noteq> [] \<and>
   rawNameSelector legacyBrowser
     (name (props (fst (leaf (radio 1 quotedName False), Top True)))) = None \<and>
   isRadio (leaf (radio 1 quotedName False), Top True) \<and>
   isTabbableRadio legacyBrowser (leaf (radio 1 quotedName False), Top True) =
     ([radioDiagnostic], False) \<and>
   isTabbable legacyBrowser (Some (leaf (radio 1 quotedName False), Top True)) defaults =
     Inr False"
proof -
  have h1: "\<not> hasCSSEscape legacyBrowser"
    by (simp add: legacyBrowser_def)
  have h2: "name (props (fst (leaf (radio 1 quotedName False), Top True))) \<noteq> []"
    by (simp add: leaf_def radio_def quotedName_def)
  have h3: "rawNameSelector legacyBrowser
              (name (props (fst (leaf (radio 1 quotedName False), Top True)))) = None"
    by (simp add: legacyBrowser_def leaf_def radio_def quotedName_def)
  have r: "isRadio (leaf (radio 1 quotedName False), Top True)"
    by code_simp
  from radio_selector_failure [OF h1 h2 h3, of defaults] h1 h2 h3 r show ?thesis
    by blast
qed

text \<open>
  Claim C4, as the specification states it, fails in its "only if" half: where
  \<open>CSS.escape\<close> is missing, a radio whose name holds a double quote is classified
  non-tabbable although no radio of its group is checked.
\<close>

theorem isNonTabbableRadio_counterexample:
  "isRadio (leaf (radio 1 quotedName False), Top True) \<and>
   isNonTabbableRadio legacyBrowser (leaf (radio 1 quotedName False), Top True) \<and>
   \<not> (\<exists>c \<in> set (radioGroup (leaf (radio 1 quotedName False), Top True)).
        checked (props (fst c)))"
  by code_simp

lemma isTabbableRadio_found:
  assumes "hasCSSEscape ev \<or>
     rawNameSelector ev (name (props (fst n))) = Some (escapedNameSelector (name (props (fst n))))"
  shows "snd (isTabbableRadio ev n) =
        (name (props (fst n)) = [] \<or>
         (case find (\<lambda>r. checked (props (fst r))) (radioGroup n) of
            None \<Rightarrow> True
          | Some c \<Rightarrow> ident_of c = ident_of n))"
proof (cases "name (props (fst n)) = []")
  case True
  then show ?thesis by (simp add: isTabbableRadio_def)
next
  case False
  from assms show ?thesis
  proof
    assume "hasCSSEscape ev"
    with False show ?thesis
      by (simp add: isTabbableRadio_def getCheckedRadio_group split: option.splits)
  next
    assume "rawNameSelector ev (name (props (fst n))) =
              Some (escapedNameSelector (name (props (fst n))))"
    with False show ?thesis
      by (simp add: isTabbableRadio_def getCheckedRadio_group split: option.splits)
  qed
qed

text \<open>
  Claim C4, amended. Provided the group lookup succeeds (\<open>CSS.escape\<close> is available,
  or the raw name selects the radio inputs of that name), a radio is classified
  non-tabbable if and only if it has a name, some member of its group is checked, and
  that checked member (the first in document order, should several be checked) is not
  this radio; when at most one member is checked, this is to say that a member other
  than this radio is checked. The group is made of the radios of its name with its form
  owner, below that form owner or, without one, below its root. A radio with no name is
  always treated as tabbable. For three radios of one name in a container, the second
  one checked, \<open>tabbable\<close> returns the second only and \<open>focusable\<close> all three.
\<close>

theorem isNonTabbableRadio_iff:
  "(isRadio n \<and>
    (hasCSSEscape ev \<or>
     rawNameSelector ev (name (props (fst n))) = Some (escapedNameSelector (name (props (fst n)))))
    \<longrightarrow>
    isNonTabbableRadio ev n =
      (name (props (fst n)) \<noteq> [] \<and>
       (case find (\<lambda>r. checked (props (fst r))) (radioGroup n) of
          None \<Rightarrow> False
        | Some c \<Rightarrow> ident_of c \<noteq> ident_of n))) \<and>
   (isRadio n \<and>
    (hasCSSEscape ev \<or>
     rawNameSelector ev (name (props (fst n))) = Some (escapedNameSelector (name (props (fst n))))) \<and>
    (\<forall>a \<in> set (radioGroup n). \<forall>b \<in> set (radioGroup n).
        checked (props (fst a)) \<and> checked (props (fst b)) \<longrightarrow> ident_of a = ident_of b)
    \<longrightarrow>
    isNonTabbableRadio ev n =
      (name (props (fst n)) \<noteq> [] \<and>
       (\<exists>c \<in> set (radioGroup n). checked (props (fst c)) \<and> ident_of c \<noteq> ident_of n))) \<and>
   (name (props (fst n)) = [] \<longrightarrow> \<not> isNonTabbableRadio ev n) \<and>
   map ident_of (tabbable browser threeRadios defaults) = [2] \<and>
   map ident_of (focusable threeRadios defaults) = [1, 2, 3]"
proof (intro conjI impI)
  let ?chk = "find (\<lambda>r. checked (props (fst r))) (radioGroup n)"
  assume h: "isRadio n \<and>
    (hasCSSEscape ev \<or>
     rawNameSelector ev (name (props (fst n))) = Some (escapedNameSelector (name (props (fst n)))))"
  then have radio: "isRadio n" by blast
  from h have res: "snd (isTabbableRadio ev n) =
        (name (props (fst n)) = [] \<or> (case ?chk of None \<Rightarrow> True | Some c \<Rightarrow> ident_of c = ident_of n))"
    by (intro isTabbableRadio_found) blast
  show "isNonTabbableRadio ev n =
      (name (props (fst n)) \<noteq> [] \<and>
       (case ?chk of None \<Rightarrow> False | Some c \<Rightarrow> ident_of c \<noteq> ident_of n))"
  proof (cases ?chk)
    case None
    with res radio show ?thesis by (simp add: isNonTabbableRadio_def)
  next
    case (Some c)
    with res radio show ?thesis by (simp add: isNonTabbableRadio_def)
  qed
next
  assume h: "isRadio n \<and>
    (hasCSSEscape ev \<or>
     rawNameSelector ev (name (props (fst n))) = Some (escapedNameSelector (name (props (fst n))))) \<and>
    (\<forall>a \<in> set (radioGroup n). \<forall>b \<in> set (radioGroup n).
        checked (props (fst a)) \<and> checked (props (fst b)) \<longrightarrow> ident_of a = ident_of b)"
  let ?chk = "find (\<lambda>r. checked (props (fst r))) (radioGroup n)"
  from h have radio: "isRadio n" by blast
  from h have lookup: "hasCSSEscape ev \<or>
     rawNameSelector ev (name (props (fst n))) = Some (escapedNameSelector (name (props (fst n))))"
    by blast
  from h have uniq: "\<And>a b. a \<in> set (radioGroup n) \<Longrightarrow> b \<in> set (radioGroup n) \<Longrightarrow>
        checked (props (fst a)) \<Longrightarrow> checked (props (fst b)) \<Longrightarrow> ident_of a = ident_of b"
    by blast
  from lookup have res: "snd (isTabbableRadio ev n) =
        (name (props (fst n)) = [] \<or> (case ?chk of None \<Rightarrow> True | Some c \<Rightarrow> ident_of c = ident_of n))"
    by (rule isTabbableRadio_found)
  show "isNonTabbableRadio ev n =
      (name (props (fst n)) \<noteq> [] \<and>
       (\<exists>c \<in> set (radioGroup n). checked (props (fst c)) \<and> ident_of c \<noteq> ident_of n))"
  proof (cases ?chk)
    case None
    then have "\<And>c. c \<in> set (radioGroup n) \<Longrightarrow> \<not> checked (props (fst c))"
      by (auto simp: find_None_iff)
    then have "\<not> (\<exists>c \<in> set (radioGroup n). checked (props (fst c)) \<and> ident_of c \<noteq> ident_of n)"
      by blast
    moreover from None res have "snd (isTabbableRadio ev n)" by simp
    ultimately show ?thesis by (simp add: isNonTabbableRadio_def)
  next
    case (Some c)
    then have c: "c \<in> set (radioGroup n)" "checked (props (fst c))"
      by (auto simp: find_Some_iff)
    have ex: "(\<exists>d \<in> set (radioGroup n). checked (props (fst d)) \<and> ident_of d \<noteq> ident_of n) =
              (ident_of c \<noteq> ident_of n)"
      using c uniq by metis
    from Some res have "snd (isTabbableRadio ev n) =
        (name (props (fst n)) = [] \<or> ident_of c = ident_of n)" by simp
    with ex radio show ?thesis
      by (simp add: isNonTabbableRadio_def)
  qed
next
  assume "name (props (fst n)) = []"
  then show "\<not> isNonTabbableRadio ev n"
    by (simp add: isNonTabbableRadio_def isTabbableRadio_def)
next
  show "map ident_of (tabbable browser threeRadios defaults) = [2]" by code_simp
next
  show "map ident_of (focusable threeRadios defaults) = [1, 2, 3]" by code_simp
qed

theorem isNonTabbableRadio_iff_witness:
  "isRadio (leaf (radio 1 ''r'' False), Child (fst threeRadios) (Top True)) \<and>
   hasCSSEscape browser \<and>
   map (\<lambda>m. (ident_of m, checked (props (fst m))))
     (radioGroup (leaf (radio 1 ''r'' False), Child (fst threeRadios) (Top True))) =
     [(1, False), (2, True), (3, False)] \<and>
   name (props (fst (leaf (radio 1 ''r'' False), Child (fst threeRadios) (Top True)))) = ''r'' \<and>
   isNonTabbableRadio browser (leaf (radio 1 ''r'' False), Child (fst threeRadios) (Top True))"
proof -
  let ?n = "(leaf (radio 1 ''r'' False), Child (fst threeRadios) (Top True))"
  have r: "isRadio ?n" by code_simp
  have e: "hasCSSEscape browser" by code_simp
  have g: "map (\<lambda>m. (ident_of m, checked (props (fst m)))) (radioGroup ?n) =
             [(1, False), (2, True), (3, False)]"
    by code_simp
  have u: "\<forall>a \<in> set (radioGroup ?n). \<forall>b \<in> set (radioGroup ?n).
      checked (props (fst a)) \<and> checked (props (fst b)) \<longrightarrow> ident_of a = ident_of b"
    by code_simp
  have x: "\<exists>c \<in> set (radioGroup ?n). checked (props (fst c)) \<and> ident_of c \<noteq> ident_of ?n"
    by code_simp
  have nm: "name (props (fst ?n)) = ''r''" by code_simp
  have ne: "name (props (fst ?n)) \<noteq> []" by code_simp
  from isNonTabbableRadio_iff [of ?n browser]
  have "isRadio ?n \<and> (hasCSSEscape browser \<or>
          rawNameSelector browser (name (props (fst ?n))) =
            Some (escapedNameSelector (name (props (fst ?n))))) \<and>
        (\<forall>a \<in> set (radioGroup ?n). \<forall>b \<in> set (radioGroup ?n).
           checked (props (fst a)) \<and> checked (props (fst b)) \<longrightarrow> ident_of a = ident_of b)
        \<longrightarrow>
        isNonTabbableRadio browser ?n =
          (name (props (fst ?n)) \<noteq> [] \<and>
           (\<exists>c \<in> set (radioGroup ?n). checked (props (fst c)) \<and> ident_of c \<noteq> ident_of ?n))"
    by (elim conjE)
  with r e u x ne have "isNonTabbableRadio browser ?n" by blast
  with r e g nm show ?thesis by blast
qed

section \<open>Disabled fieldsets: classification\<close>

lemma disabledFieldsetsAbove_Nil:
  "disabledFieldsetsAbove c = [] \<longleftrightarrow> \<not> ancestorMatches disabledFieldset c"
  by (induction c) auto

lemma fieldsetLoop_iff:
  "fieldsetLoop n c \<longleftrightarrow> (\<exists>fs \<in> set (disabledFieldsetsAbove c). \<not> legendExempt n fs)"
proof (induction c)
  case (Top b)
  show ?case by simp
next
  case (ShadowChild h c)
  show ?case by simp
next
  case (Child p c)
  show ?case
  proof (cases "disabledFieldset p")
    case False
    with Child show ?thesis by (auto simp: disabledFieldset_def)
  next
    case True
    have later: "(\<exists>fs \<in> set (disabledFieldsetsAbove c). \<not> legendExempt n fs) \<Longrightarrow>
                 ancestorMatches disabledFieldset c"
      using disabledFieldsetsAbove_Nil [of c] by auto
    show ?thesis
    proof (cases "find (\<lambda>child. tag child = ''LEGEND'') (children p)")
      case None
      with True show ?thesis by (auto simp: disabledFieldset_def legendExempt_def)
    next
      case (Some legend)
      with True later show ?thesis
        by (auto simp: disabledFieldset_def legendExempt_def disabledFieldsetsAbove_Nil)
    qed
  qed
qed

text \<open>
  Claim C6. A form control (input, button, select, textarea) is disabled from a fieldset
  exactly when it is nested in a disabled fieldset that does not exempt it, and the
  exemption needs both that the control is a descendant of the first legend child of
  that fieldset and that the fieldset is not nested in another disabled fieldset. A
  control disabled in this way is neither focusable nor tabbable. For a disabled fieldset
  holding a text input in its first legend and another after it, both queries return
  the input in the legend only.
\<close>

theorem isDisabledFromFieldset_legend:
  "(isDisabledFromFieldset n \<longleftrightarrow>
      isFormControl n \<and> (\<exists>fs \<in> set (disabledFieldsetsAbove (snd n)). \<not> legendExempt n fs)) \<and>
   (isDisabledFromFieldset n \<longrightarrow>
      \<not> isNodeMatchingSelectorFocusable opts n \<and> \<not> isNodeMatchingSelectorTabbable ev opts n) \<and>
   map ident_of (focusable legendFieldset defaults) = [3] \<and>
   map ident_of (tabbable browser legendFieldset defaults) = [3]"
proof (intro conjI)
  show "isDisabledFromFieldset n \<longleftrightarrow>
      isFormControl n \<and> (\<exists>fs \<in> set (disabledFieldsetsAbove (snd n)). \<not> legendExempt n fs)"
    by (simp add: isDisabledFromFieldset_def isFormControl_def fieldsetLoop_iff)
  show "isDisabledFromFieldset n \<longrightarrow>
      \<not> isNodeMatchingSelectorFocusable opts n \<and> \<not> isNodeMatchingSelectorTabbable ev opts n"
    by (simp add: isNodeMatchingSelectorFocusable_def isNodeMatchingSelectorTabbable_def)
  show "map ident_of (focusable legendFieldset defaults) = [3]" by code_simp
  show "map ident_of (tabbable browser legendFieldset defaults) = [3]" by code_simp
qed


theorem isDisabledFromFieldset_legend_witness:
  "isFormControl outsideLegend \<and>
   map ident_of (disabledFieldsetsAbove (snd outsideLegend)) = [1] \<and>
   map (legendExempt outsideLegend) (disabledFieldsetsAbove (snd outsideLegend)) = [False] \<and>
   isDisabledFromFieldset outsideLegend \<and>
   \<not> isNodeMatchingSelectorFocusable defaults outsideLegend \<and>
   \<not> isNodeMatchingSelectorTabbable browser defaults outsideLegend"
proof -
  have c: "isFormControl outsideLegend" by code_simp
  have a: "map ident_of (disabledFieldsetsAbove (snd outsideLegend)) = [1]" by code_simp
  have l: "map (legendExempt outsideLegend) (disabledFieldsetsAbove (snd outsideLegend)) = [False]"
    by code_simp
  have x: "\<exists>fs \<in> set (disabledFieldsetsAbove (snd outsideLegend)).
             \<not> legendExempt outsideLegend fs"
    by code_simp
  from isDisabledFromFieldset_legend [of outsideLegend defaults browser] c x
  have "isDisabledFromFieldset outsideLegend \<and>
        \<not> isNodeMatchingSelectorFocusable defaults outsideLegend \<and>
        \<not> isNodeMatchingSelectorTabbable browser defaults outsideLegend"
    by blast
  with c a l show ?thesis by blast
qed

section \<open>What the collectors return\<close>
























section \<open>The sorter on a scope with a negative tab index\<close>

lemma insort_key_map:
  "insort_key f (g x) (map g ys) = map g (insort_key (\<lambda>y. f (g y)) x ys)"
  by (induction ys) auto

lemma sort_key_map:
  "sort_key f (map g xs) = map g (sort_key (\<lambda>y. f (g y)) xs)"
  by (induction xs) (auto simp: insort_key_map)

lemma entries_zip:
  "map (\<lambda>(i, it, es).
       \<lparr>documentOrder = i, s_tabIndex = candidateTabindex it, s_item = it,
        isScope = isScopeItem it, content = es\<rparr>)
     (zip [0..<length its] (zip its (map itemElements its))) =
   map (\<lambda>(i, it).
       \<lparr>documentOrder = i, s_tabIndex = candidateTabindex it, s_item = it,
        isScope = isScopeItem it, content = itemElements it\<rparr>)
     (zip [0..<length its] its)"
  by (rule nth_equalityI) simp_all

text \<open>
  Where no item has a negative effective tab index, \<open>sortByOrder\<close> returns the items
  of positive tab index sorted by tab index and then by position, each replaced by its
  elements, followed by the items of tab index 0 in their order.
\<close>

lemma sortByOrder_order:
  assumes "\<forall>it \<in> set its. 0 \<le> candidateTabindex it"
  shows "sortByOrder its =
     concat (map (\<lambda>(i, it). itemElements it)
       (sort_key (\<lambda>(i, it). (candidateTabindex it, i))
          (filter (\<lambda>(i, it). 0 < candidateTabindex it) (zip [0..<length its] its)))) @
     concat (map itemElements (filter (\<lambda>it. candidateTabindex it = 0) its))"
proof -
  define zs where "zs = zip [0..<length its] its"
  have snd_zs: "map snd zs = its" by (simp add: zs_def)
  have pos: "filter (\<lambda>z. candidateTabindex (snd z) \<noteq> 0) zs =
             filter (\<lambda>z. 0 < candidateTabindex (snd z)) zs"
  proof (rule filter_cong [OF refl])
    fix z assume "z \<in> set zs"
    then have "snd z \<in> set its"
      using set_zip_rightD [of "fst z" "snd z" "[0..<length its]" its] by (simp add: zs_def)
    with assms have "0 \<le> candidateTabindex (snd z)" by blast
    then show "(candidateTabindex (snd z) \<noteq> 0) = (0 < candidateTabindex (snd z))" by auto
  qed
  have reg: "concat (map (\<lambda>z. itemElements (snd z))
                 (filter (\<lambda>z. candidateTabindex (snd z) = 0) zs)) =
             concat (map itemElements (filter (\<lambda>it. candidateTabindex it = 0) (map snd zs)))"
    by (simp add: filter_map comp_def)
  have "sortByOrder its =
     concat (map (\<lambda>z. itemElements (snd z))
       (sort_key (\<lambda>z. (candidateTabindex (snd z), fst z))
          (filter (\<lambda>z. candidateTabindex (snd z) \<noteq> 0) zs))) @
     concat (map (\<lambda>z. itemElements (snd z))
       (filter (\<lambda>z. candidateTabindex (snd z) = 0) zs))"
    unfolding sortByOrder.simps assemble_def entries_zip Let_def zs_def [symmetric]
    by (simp add: filter_map comp_def sort_key_map sortKey_def case_prod_unfold)
  with pos reg snd_zs show ?thesis
    by (simp add: case_prod_unfold zs_def)
qed

text \<open>
  Claim C3 on a document the collector really produces. The shadow root of the host
  holds a button with \<open>tabindex="1"\<close> and then a slot with \<open>tabindex="-1"\<close>, to
  which a button of tab index 0 is assigned. The slot becomes a scope whose effective
  tab index is \<open>-1\<close>; it is neither 0 nor positive, and \<open>sortByOrder\<close> puts it in
  the ordered bucket, where it sorts before the button of tab index 1. \<open>tabbable\<close>
  returns the slotted button first, ahead of the positive tab index.
\<close>

theorem sortByOrder_negative_scope:
  "getTabindex slotElement True = - 1 \<and>
   getTabindex shadowButton False = 1 \<and>
   getTabindex slottedButton False = 0 \<and>
   map ident_of (tabbable browser slotHost shadowAware) = [4, 2]"
  by code_simp

end
